theory Spec2Isabelle
  imports Main "HOL-Library.Word"
begin

section \<open>JavaScript values and strings\<close>

text \<open>
  A JavaScript string is a sequence of UTF-16 code units. The model covers the strings
  whose code units are below 256: a \<^typ>\<open>char\<close> is such a code unit (the Latin-1 range
  of Unicode). Values that are thrown, attached to results or returned by
  \<^verbatim>\<open>navigator.canShare\<close> are of type \<open>jsvalue\<close>; numbers are covered as far as they
  are integers, objects as far as they are plain property lists.
\<close>

datatype jsvalue =
    JUndefined
  | JNull
  | JBool bool
  | JNumber int
  | JString string
  | JObject "(string \<times> jsvalue) list"

fun typeof :: "jsvalue \<Rightarrow> string" where
  "typeof JUndefined = ''undefined''"
| "typeof JNull = ''object''"
| "typeof (JBool b) = ''boolean''"
| "typeof (JNumber n) = ''number''"
| "typeof (JString s) = ''string''"
| "typeof (JObject ps) = ''object''"

fun truthy :: "jsvalue \<Rightarrow> bool" where
  "truthy JUndefined = False"
| "truthy JNull = False"
| "truthy (JBool b) = b"
| "truthy (JNumber n) = (n \<noteq> 0)"
| "truthy (JString s) = (s \<noteq> [])"
| "truthy (JObject ps) = True"

text \<open>Reading a property: the first binding of the key, \<^verbatim>\<open>undefined\<close> when there is none.\<close>

fun getProp :: "jsvalue \<Rightarrow> string \<Rightarrow> jsvalue" where
  "getProp (JObject ps) k = (case map_of ps k of None \<Rightarrow> JUndefined | Some v \<Rightarrow> v)"
| "getProp v k = JUndefined"

definition jsError :: "string \<Rightarrow> string \<Rightarrow> jsvalue" where
  "jsError nm msg = JObject [(''name'', JString nm), (''message'', JString msg)]"

text \<open>\<^verbatim>\<open>String.prototype.trim\<close>: the white space and line terminators below 256.\<close>

definition isWhiteSpace :: "char \<Rightarrow> bool" where
  "isWhiteSpace c =
     (let n = (of_char c :: nat) in (9 \<le> n \<and> n \<le> 13) \<or> n = 32 \<or> n = 160)"

definition trim :: "string \<Rightarrow> string" where
  "trim s = rev (dropWhile isWhiteSpace (rev (dropWhile isWhiteSpace s)))"

text \<open>
  \<^verbatim>\<open>String.prototype.toLowerCase\<close> below 256: A-Z and the capital letters U+00C0-U+00DE
  (U+00D7, the multiplication sign, apart) move up by 32.
\<close>

definition lowerChar :: "char \<Rightarrow> char" where
  "lowerChar c =
     (let n = (of_char c :: nat) in
      if (65 \<le> n \<and> n \<le> 90) \<or> (192 \<le> n \<and> n \<le> 222 \<and> n \<noteq> 215)
      then char_of (n + 32) else c)"

definition toLowerCase :: "string \<Rightarrow> string" where
  "toLowerCase s = map lowerChar s"

text \<open>\<^verbatim>\<open>s.split(sep)[0]\<close> for a one-character separator: the text before its first occurrence.\<close>

definition splitFirst :: "char \<Rightarrow> string \<Rightarrow> string" where
  "splitFirst sep s = takeWhile (\<lambda>c. c \<noteq> sep) s"

definition startsWith :: "string \<Rightarrow> string \<Rightarrow> bool" where
  "startsWith s p = (take (length p) s = p)"

definition endsWith :: "string \<Rightarrow> string \<Rightarrow> bool" where
  "endsWith s p = (length p \<le> length s \<and> drop (length s - length p) s = p)"

text \<open>
  The type of a \<^verbatim>\<open>Blob\<close> or \<^verbatim>\<open>File\<close> as its constructor stores it: empty when a code unit
  lies outside U+0020-U+007E, in ASCII lower case otherwise.
\<close>

definition normalizeType :: "string \<Rightarrow> string" where
  "normalizeType t =
     (if list_all (\<lambda>c. 32 \<le> (of_char c :: nat) \<and> (of_char c :: nat) \<le> 126) t
      then toLowerCase t else [])"

subsection \<open>Serialising a query parameter\<close>

text \<open>
  \<^verbatim>\<open>URLSearchParams\<close> serialises a value as application/x-www-form-urlencoded: the value is
  encoded in UTF-8; a space becomes \<^verbatim>\<open>+\<close>; letters, digits and \<^verbatim>\<open>* - . _\<close> stay; every other
  byte becomes \<^verbatim>\<open>%XX\<close> in upper-case hexadecimal.
\<close>

definition hexDigit :: "nat \<Rightarrow> char" where
  "hexDigit n = ''0123456789ABCDEF'' ! (n mod 16)"

definition percentByte :: "nat \<Rightarrow> string" where
  "percentByte b = [CHR ''%'', hexDigit (b div 16), hexDigit b]"

definition utf8 :: "char \<Rightarrow> nat list" where
  "utf8 c = (let n = (of_char c :: nat) in
     if n < 128 then [n] else [192 + n div 64, 128 + n mod 64])"

definition formKeeps :: "nat \<Rightarrow> bool" where
  "formKeeps b = ((48 \<le> b \<and> b \<le> 57) \<or> (65 \<le> b \<and> b \<le> 90) \<or> (97 \<le> b \<and> b \<le> 122)
     \<or> b = 42 \<or> b = 45 \<or> b = 46 \<or> b = 95)"

definition formEncodeChar :: "char \<Rightarrow> string" where
  "formEncodeChar c =
     (if c = CHR '' '' then ''+''
      else if formKeeps (of_char c) then [c]
      else concat (map percentByte (utf8 c)))"

definition formEncode :: "string \<Rightarrow> string" where
  "formEncode s = concat (map formEncodeChar s)"

section \<open>Data model\<close>

datatype share_provider_id = Instagram

datatype payload_kind = ImageKind

datatype share_method = web_share | deep_link | deep_link_clipboard

datatype clipboard_status = clip_copied | clip_failed | clip_not_supported | clip_skipped

datatype fetched_via = direct | next_image_optimizer

datatype share_reason =
    not_in_browser
  | not_supported
  | clipboard_not_supported
  | fetch_failed
  | user_cancelled
  | unknown

record share_details =
  clipboard :: clipboard_status
  deepLinkOpened :: "bool option"
  fetchedVia :: "fetched_via option"

text \<open>
  \<^verbatim>\<open>ShareResult\<close>: the variant with \<^verbatim>\<open>ok: true\<close> carries the provider, the method and the
  optional details; the variant with \<^verbatim>\<open>ok: false\<close> the provider, the reason and the
  optional error.
\<close>

datatype share_result =
    Success share_provider_id share_method "share_details option"
  | Failure share_provider_id share_reason "jsvalue option"

text \<open>\<^verbatim>\<open>Omit<SharePayload, "kind">\<close>, extended by the payload and by the options of the direct flow.\<close>

record share_fields =
  imageUrl :: string
  filename :: "string option"
  title :: "string option"
  text_of :: "string option"

record share_payload = share_fields +
  kind :: payload_kind

record blob =
  blob_type :: string
  blob_bytes :: "8 word list"

text \<open>\<^verbatim>\<open>PreparedFile\<close>: a \<^verbatim>\<open>File\<close> with the optional tag \<^verbatim>\<open>__fetchedVia\<close>.\<close>

record prepared_file =
  file_name :: string
  file_type :: string
  file_lastModified :: int
  file_bytes :: "8 word list"
  file_fetchedVia :: "fetched_via option"

datatype direct_target = story_camera | app

record direct_options = share_fields +
  file_of :: "prepared_file option"
  target :: "direct_target option"
  skipClipboard :: "bool option"

record fetch_options =
  allowNextImageOptimizerFallback :: "bool option"

record share_data =
  data_files :: "prepared_file list"
  data_title :: "string option"
  data_text :: "string option"

section \<open>The browser\<close>

text \<open>
  Every call of a browser interface is recorded, in order, in a list of events. What a call
  does (return or throw) may depend on everything that happened before it, so each
  interface is a function of the events so far and of its arguments; \<open>Inl e\<close> is the
  value \<open>e\<close> thrown (or the promise rejected with \<open>e\<close>).
\<close>

datatype event =
    Fetch string
  | NewURL string string
  | NewClipboardItem string
  | ClipboardWrite string
  | CanShare "prepared_file list"
  | Share share_data
  | LocationAssign string
  | WindowOpen string string

record response =
  resp_ok :: bool
  resp_blob :: "jsvalue + blob"

text \<open>
  \<^verbatim>\<open>window.location.origin\<close> is either the string \<^verbatim>\<open>null\<close> (an opaque origin) or the
  serialisation \<^verbatim>\<open>scheme://host[:port]\<close> of a tuple origin.
\<close>

datatype origin = OpaqueOrigin | TupleOrigin string

record window =
  location_origin :: origin
  location_assign :: "event list \<Rightarrow> string \<Rightarrow> jsvalue + unit"
  window_open :: "event list \<Rightarrow> string \<Rightarrow> string \<Rightarrow> jsvalue + unit"

text \<open>
  A member of \<^verbatim>\<open>navigator\<close> that the code probes: not there, there with a value that is
  not a function, or a function.
\<close>

datatype 'f member = Absent | NotFunction jsvalue | Function 'f

text \<open>\<^verbatim>\<open>clip_write\<close> is \<open>None\<close> when \<^verbatim>\<open>typeof clipboard.write\<close> is not \<^verbatim>\<open>"function"\<close>.\<close>

record clipboard_api =
  clip_write :: "(event list \<Rightarrow> string \<Rightarrow> blob \<Rightarrow> jsvalue + unit) option"

text \<open>\<^verbatim>\<open>nav_clipboard\<close> is \<open>None\<close> when \<^verbatim>\<open>navigator.clipboard\<close> is falsy.\<close>

record navigator =
  nav_share :: "(event list \<Rightarrow> share_data \<Rightarrow> jsvalue + unit) member"
  nav_canShare :: "(event list \<Rightarrow> prepared_file list \<Rightarrow> jsvalue + jsvalue) member"
  nav_clipboard :: "clipboard_api option"

text \<open>
  The globals: \<open>None\<close> for \<^verbatim>\<open>window\<close>, \<^verbatim>\<open>navigator\<close> or \<^verbatim>\<open>ClipboardItem\<close> when its \<^verbatim>\<open>typeof\<close> is
  \<^verbatim>\<open>"undefined"\<close>. The \<^verbatim>\<open>ClipboardItem\<close> constructor gets the MIME type and the blob of
  its one entry.
\<close>

record env =
  env_window :: "window option"
  env_navigator :: "navigator option"
  env_fetch :: "event list \<Rightarrow> string \<Rightarrow> jsvalue + response"
  env_ClipboardItem :: "(event list \<Rightarrow> string \<Rightarrow> blob \<Rightarrow> jsvalue + unit) option"
  env_now :: "event list \<Rightarrow> int"

subsection \<open>Computations that record events and may throw\<close>

type_synonym 'a js = "event list \<Rightarrow> (jsvalue + 'a) \<times> event list"

definition ret :: "'a \<Rightarrow> 'a js" where
  "ret x = (\<lambda>h. (Inr x, h))"

definition throw :: "jsvalue \<Rightarrow> 'a js" where
  "throw e = (\<lambda>h. (Inl e, h))"

definition bnd :: "'a js \<Rightarrow> ('a \<Rightarrow> 'b js) \<Rightarrow> 'b js" where
  "bnd m f = (\<lambda>h. case m h of (Inl e, h') \<Rightarrow> (Inl e, h') | (Inr x, h') \<Rightarrow> f x h')"

definition try_catch :: "'a js \<Rightarrow> (jsvalue \<Rightarrow> 'a js) \<Rightarrow> 'a js" where
  "try_catch m handler =
     (\<lambda>h. case m h of (Inl e, h') \<Rightarrow> handler e h' | (Inr x, h') \<Rightarrow> (Inr x, h'))"

text \<open>Calling a browser interface: its outcome on the events so far, then the event.\<close>

definition call :: "event \<Rightarrow> (event list \<Rightarrow> jsvalue + 'a) \<Rightarrow> 'a js" where
  "call ev f = (\<lambda>h. (f h, h @ [ev]))"

text \<open>Awaiting a promise whose outcome is known.\<close>

definition await :: "jsvalue + 'a \<Rightarrow> 'a js" where
  "await r = (\<lambda>h. (r, h))"

definition referenceError :: "string \<Rightarrow> jsvalue" where
  "referenceError nm = jsError ''ReferenceError'' (nm @ '' is not defined'')"

definition typeError :: "string \<Rightarrow> jsvalue" where
  "typeError msg = jsError ''TypeError'' msg"

text \<open>Reading the globals \<^verbatim>\<open>window\<close> and \<^verbatim>\<open>navigator\<close> outside a \<^verbatim>\<open>typeof\<close>.\<close>

definition the_window :: "env \<Rightarrow> window js" where
  "the_window e =
     (case env_window e of None \<Rightarrow> throw (referenceError ''window'') | Some w \<Rightarrow> ret w)"

definition the_navigator :: "env \<Rightarrow> navigator js" where
  "the_navigator e =
     (case env_navigator e of None \<Rightarrow> throw (referenceError ''navigator'') | Some n \<Rightarrow> ret n)"

section \<open>The share functions\<close>

definition extensionFromContentType :: "string \<Rightarrow> string" where
  "extensionFromContentType contentType =
     (let type = trim (splitFirst CHR '';'' (toLowerCase contentType)) in
      if type = ''image/png'' then ''.png''
      else if type = ''image/jpeg'' then ''.jpg''
      else if type = ''image/webp'' then ''.webp''
      else if type = ''image/gif'' then ''.gif''
      else '''')"

text \<open>
  The name that \<^verbatim>\<open>fileFromBlob\<close> gives the file (the \<^verbatim>\<open>File\<close> constructor is taken to exist):
  \<^verbatim>\<open>filename?.trim() || `shared-image${inferredExtension}`\<close>.
\<close>

definition safeName :: "string \<Rightarrow> string option \<Rightarrow> string" where
  "safeName contentType fn =
     (let inferredExtension = extensionFromContentType contentType in
      case fn of
        None \<Rightarrow> ''shared-image'' @ inferredExtension
      | Some f \<Rightarrow> if trim f \<noteq> [] then trim f else ''shared-image'' @ inferredExtension)"

definition fileFromBlob :: "env \<Rightarrow> blob \<Rightarrow> string option \<Rightarrow> fetched_via \<Rightarrow> prepared_file js" where
  "fileFromBlob e b fn via =
     (\<lambda>h. let contentType = blob_type b in
        (Inr \<lparr> file_name = safeName contentType fn,
               file_type = normalizeType
                 (if contentType \<noteq> [] then contentType else ''application/octet-stream''),
               file_lastModified = env_now e h,
               file_bytes = blob_bytes b,
               file_fetchedVia = Some via \<rparr>, h))"

definition tryFetchBlob :: "env \<Rightarrow> string \<Rightarrow> blob option js" where
  "tryFetchBlob e url =
     try_catch
       (bnd (call (Fetch url) (\<lambda>h. env_fetch e h url)) (\<lambda>response.
          if \<not> resp_ok response then ret None
          else bnd (await (resp_blob response)) (\<lambda>b. ret (Some b))))
       (\<lambda>err. ret None)"

text \<open>
  \<^verbatim>\<open>new URL("/_next/image", window.location.origin)\<close> throws a \<^verbatim>\<open>TypeError\<close> when the
  origin is opaque (the base \<^verbatim>\<open>null\<close> is no URL); on a tuple origin the URL is the origin
  followed by the path, and the three parameters make its query.
\<close>

definition originString :: "origin \<Rightarrow> string" where
  "originString og = (case og of OpaqueOrigin \<Rightarrow> ''null'' | TupleOrigin s \<Rightarrow> s)"

definition newURL :: "string \<Rightarrow> origin \<Rightarrow> string js" where
  "newURL path og =
     call (NewURL path (originString og))
       (\<lambda>h. case og of
               OpaqueOrigin \<Rightarrow> Inl (typeError ''Invalid URL'')
             | TupleOrigin s \<Rightarrow> Inr (s @ path))"

definition buildNextImageOptimizerUrl :: "env \<Rightarrow> string \<Rightarrow> string js" where
  "buildNextImageOptimizerUrl e remoteUrl =
     bnd (the_window e) (\<lambda>w.
     bnd (newURL ''/_next/image'' (location_origin w)) (\<lambda>url.
       ret (url @ ''?url='' @ formEncode remoteUrl @ ''&w=1080'' @ ''&q=90'')))"

definition fetchError :: jsvalue where
  "fetchError = jsError ''Error'' ''Failed to fetch image (direct and fallback).''"

definition fileFromUrl ::
  "env \<Rightarrow> string \<Rightarrow> string option \<Rightarrow> fetch_options option \<Rightarrow> prepared_file js" where
  "fileFromUrl e url fn options =
     bnd (tryFetchBlob e url) (\<lambda>direct_blob.
       case direct_blob of
         Some b \<Rightarrow> fileFromBlob e b fn direct
       | None \<Rightarrow>
           if (case options of None \<Rightarrow> False
               | Some os \<Rightarrow> allowNextImageOptimizerFallback os = Some True)
              \<and> env_window e \<noteq> None
           then
             bnd (buildNextImageOptimizerUrl e url) (\<lambda>nextUrl.
             bnd (tryFetchBlob e nextUrl) (\<lambda>viaNext.
               case viaNext of
                 Some b \<Rightarrow> fileFromBlob e b fn next_image_optimizer
               | None \<Rightarrow> throw fetchError))
           else throw fetchError)"

definition prepareShareImageFile :: "env \<Rightarrow> string \<Rightarrow> string option \<Rightarrow> prepared_file js" where
  "prepareShareImageFile e url fn =
     fileFromUrl e url fn (Some \<lparr> allowNextImageOptimizerFallback = Some True \<rparr>)"

definition isAbortError :: "jsvalue \<Rightarrow> bool" where
  "isAbortError error =
     (if truthy error \<and> typeof error = ''object''
      then getProp error ''name'' = JString ''AbortError''
      else False)"

definition inferImageMime :: "prepared_file \<Rightarrow> string option" where
  "inferImageMime f =
     (if file_type f \<noteq> [] \<and> startsWith (file_type f) ''image/'' then Some (file_type f)
      else let name = toLowerCase (file_name f) in
        if endsWith name ''.png'' then Some ''image/png''
        else if endsWith name ''.jpg'' \<or> endsWith name ''.jpeg'' then Some ''image/jpeg''
        else if endsWith name ''.webp'' then Some ''image/webp''
        else if endsWith name ''.gif'' then Some ''image/gif''
        else None)"

text \<open>\<^verbatim>\<open>file.slice(0, file.size, mime)\<close>: all the bytes, under the given type.\<close>

definition slice_all :: "prepared_file \<Rightarrow> string \<Rightarrow> blob" where
  "slice_all f mime = \<lparr> blob_type = normalizeType mime, blob_bytes = file_bytes f \<rparr>"

text \<open>\<^verbatim>\<open>inferImageMime(file) || "image/png"\<close>.\<close>

definition clipboardMime :: "prepared_file \<Rightarrow> string" where
  "clipboardMime f =
     (case inferImageMime f of
        None \<Rightarrow> ''image/png''
      | Some m \<Rightarrow> if m \<noteq> [] then m else ''image/png'')"

definition tryWriteImageToClipboard :: "env \<Rightarrow> prepared_file \<Rightarrow> bool js" where
  "tryWriteImageToClipboard e f =
     bnd (the_navigator e) (\<lambda>nav.
       case nav_clipboard nav of
         None \<Rightarrow> ret False
       | Some clip \<Rightarrow>
          (case clip_write clip of
             None \<Rightarrow> ret False
           | Some write \<Rightarrow>
              (case env_ClipboardItem e of
                 None \<Rightarrow> ret False
               | Some newClipboardItem \<Rightarrow>
                  (let mime = clipboardMime f
                   in try_catch
                        (bnd (ret (slice_all f mime)) (\<lambda>b.
                         bnd (call (NewClipboardItem mime) (\<lambda>h. newClipboardItem h mime b)) (\<lambda>item.
                         bnd (call (ClipboardWrite mime) (\<lambda>h. write h mime b)) (\<lambda>done.
                           ret True))))
                        (\<lambda>err. ret False)))))"

definition isClipboardWriteSupported :: "env \<Rightarrow> bool js" where
  "isClipboardWriteSupported e =
     bnd (the_navigator e) (\<lambda>nav.
       case nav_clipboard nav of
         None \<Rightarrow> ret False
       | Some clip \<Rightarrow>
          (case clip_write clip of
             None \<Rightarrow> ret False
           | Some write \<Rightarrow> ret (env_ClipboardItem e \<noteq> None)))"

definition tryOpenDeepLink :: "env \<Rightarrow> string \<Rightarrow> bool js" where
  "tryOpenDeepLink e url =
     try_catch
       (bnd (the_window e) (\<lambda>w.
        bnd (call (LocationAssign url) (\<lambda>h. location_assign w h url)) (\<lambda>done.
          ret True)))
       (\<lambda>err1.
          try_catch
            (bnd (the_window e) (\<lambda>w.
             bnd (call (WindowOpen url ''_blank'') (\<lambda>h. window_open w h url ''_blank'')) (\<lambda>done.
               ret True)))
            (\<lambda>err2. ret False))"

text \<open>
  The clipboard step of the direct flow (the block guarded by \<^verbatim>\<open>!options.skipClipboard\<close>):
  it leaves the three locals \<^verbatim>\<open>clipboardOk\<close>, \<^verbatim>\<open>clipboardStatus\<close> and \<^verbatim>\<open>fetchedVia\<close>.
\<close>

definition directClipboardStep ::
  "env \<Rightarrow> direct_options \<Rightarrow> (bool \<times> clipboard_status \<times> fetched_via option) js" where
  "directClipboardStep e options =
     (if \<not> (skipClipboard options = Some True) then
        bnd (isClipboardWriteSupported e) (\<lambda>supported.
          let clipboardStatus = (if supported then clip_failed else clip_not_supported) in
          bnd (isClipboardWriteSupported e) (\<lambda>supported2.
            if supported2 then
              try_catch
                (bnd (case file_of options of
                        Some f \<Rightarrow> ret f
                      | None \<Rightarrow>
                          fileFromUrl e (imageUrl options) (filename options)
                            (Some \<lparr> allowNextImageOptimizerFallback = Some True \<rparr>))
                   (\<lambda>prepared.
                 bnd (tryWriteImageToClipboard e prepared) (\<lambda>clipboardOk.
                   ret (clipboardOk,
                        if clipboardOk then clip_copied else clip_failed,
                        file_fetchedVia prepared))))
                (\<lambda>error. ret (False, clip_failed, None))
            else ret (False, clipboardStatus, None)))
      else ret (False, clip_skipped, None))"

text \<open>The deep link of the target surface; the default target is the story camera.\<close>

definition deepLinkUrl :: "direct_target option \<Rightarrow> string" where
  "deepLinkUrl t =
     (let tgt = (case t of None \<Rightarrow> story_camera | Some x \<Rightarrow> x) in
      if tgt = story_camera then ''instagram://story-camera'' else ''instagram://app'')"

definition shareImageToInstagramDirect :: "env \<Rightarrow> direct_options \<Rightarrow> share_result js" where
  "shareImageToInstagramDirect e options =
     (if env_window e = None \<or> env_navigator e = None
      then ret (Failure Instagram not_in_browser None)
      else
        let deepLink = deepLinkUrl (target options) in
        bnd (directClipboardStep e options) (\<lambda>(clipboardOk, clipboardStatus, via).
        bnd (tryOpenDeepLink e deepLink) (\<lambda>opened.
          if \<not> opened then ret (Failure Instagram not_supported None)
          else ret (Success Instagram
                      (if clipboardOk then deep_link_clipboard else deep_link)
                      (Some \<lparr> clipboard = clipboardStatus,
                              deepLinkOpened = Some opened,
                              fetchedVia = via \<rparr>)))))"

text \<open>
  The \<^verbatim>\<open>canShare\<close> block of the Web Share flow: \<open>Some r\<close> is its early return. The optional
  call \<^verbatim>\<open>navigator.canShare?.(...)\<close> yields \<^verbatim>\<open>undefined\<close> on \<^verbatim>\<open>undefined\<close> and \<^verbatim>\<open>null\<close>, and
  throws a \<^verbatim>\<open>TypeError\<close> on any other value that is not a function.
\<close>

definition canShareVerdict :: "jsvalue \<Rightarrow> share_result option js" where
  "canShareVerdict canShare =
     (if canShare = JBool False then ret (Some (Failure Instagram not_supported None))
      else ret None)"

definition canShareStep :: "navigator \<Rightarrow> prepared_file \<Rightarrow> share_result option js" where
  "canShareStep nav f =
     try_catch
       (case nav_canShare nav of
          Absent \<Rightarrow> ret None
        | NotFunction v \<Rightarrow>
            bnd (if v = JUndefined \<or> v = JNull then ret JUndefined
                 else throw (typeError ''navigator.canShare is not a function''))
              canShareVerdict
        | Function canShareFn \<Rightarrow>
            bnd (call (CanShare [f]) (\<lambda>h. canShareFn h [f])) canShareVerdict)
       (\<lambda>err. ret None)"

definition shareImageViaWebShare :: "env \<Rightarrow> share_payload \<Rightarrow> share_result js" where
  "shareImageViaWebShare e payload =
     (case (env_window e, env_navigator e) of
        (Some w, Some nav) \<Rightarrow>
          (case nav_share nav of
             Function shareFn \<Rightarrow>
               if kind payload \<noteq> ImageKind then ret (Failure Instagram unknown None)
               else
                 bnd (try_catch
                        (bnd (fileFromUrl e (imageUrl payload) (filename payload) None)
                           (\<lambda>f. ret (Inr f)))
                        (\<lambda>error. ret (Inl (Failure Instagram fetch_failed (Some error)))))
                   (\<lambda>fetched.
                      case fetched of
                        Inl early \<Rightarrow> ret early
                      | Inr f \<Rightarrow>
                          bnd (canShareStep nav f) (\<lambda>rejected.
                            case rejected of
                              Some early \<Rightarrow> ret early
                            | None \<Rightarrow>
                                (let shareData = \<lparr> data_files = [f],
                                                   data_title = title payload,
                                                   data_text = text_of payload \<rparr>
                                 in try_catch
                                      (bnd (call (Share shareData) (\<lambda>h. shareFn h shareData))
                                         (\<lambda>done. ret (Success Instagram web_share None)))
                                      (\<lambda>error.
                                         if isAbortError error
                                         then ret (Failure Instagram user_cancelled (Some error))
                                         else ret (Failure Instagram unknown (Some error))))))
           | _ \<Rightarrow> ret (Failure Instagram not_supported None))
      | _ \<Rightarrow> ret (Failure Instagram not_in_browser None))"

text \<open>The registry \<^verbatim>\<open>providers\<close> and the entry points built on it.\<close>

definition providers :: "share_provider_id \<Rightarrow> env \<Rightarrow> share_payload \<Rightarrow> share_result js" where
  "providers p = (case p of Instagram \<Rightarrow> shareImageViaWebShare)"

definition share :: "env \<Rightarrow> share_provider_id \<Rightarrow> share_payload \<Rightarrow> share_result js" where
  "share e p payload = providers p e payload"

definition shareImageToInstagram :: "env \<Rightarrow> share_fields \<Rightarrow> share_result js" where
  "shareImageToInstagram e options =
     share e Instagram (share_fields.extend options (share_payload.fields ImageKind))"

section \<open>Notions used by the statements\<close>

text \<open>
  What a \<^verbatim>\<open>fetch\<close> outcome is worth to \<^verbatim>\<open>tryFetchBlob\<close>: the blob when the response came,
  was \<^verbatim>\<open>ok\<close> and gave its body; nothing when the response is absent (the call threw), is
  not a success, or its body could not be read.
\<close>

definition fetchedBlob :: "jsvalue + response \<Rightarrow> blob option" where
  "fetchedBlob outcome =
     (case outcome of
        Inl err \<Rightarrow> None
      | Inr r \<Rightarrow> if resp_ok r then (case resp_blob r of Inl err \<Rightarrow> None | Inr b \<Rightarrow> Some b)
                 else None)"

text \<open>
  The capability to write to the clipboard: a truthy \<^verbatim>\<open>navigator.clipboard\<close> whose \<^verbatim>\<open>write\<close> is
  a function, and a \<^verbatim>\<open>ClipboardItem\<close> constructor.
\<close>

definition clipboardWriteCapable :: "env \<Rightarrow> navigator \<Rightarrow> bool" where
  "clipboardWriteCapable e nav =
     (case nav_clipboard nav of
        None \<Rightarrow> False
      | Some clip \<Rightarrow> clip_write clip \<noteq> None \<and> env_ClipboardItem e \<noteq> None)"

text \<open>The URL of the image optimizer for a page of origin \<open>s\<close>.\<close>

definition optimizerUrl :: "string \<Rightarrow> string \<Rightarrow> string" where
  "optimizerUrl s remoteUrl = s @ ''/_next/image?url='' @ formEncode remoteUrl @ ''&w=1080&q=90''"

text \<open>
  The table of extensions read as an exact match on the content type, and the file name
  computed from it.
\<close>

definition exactExtension :: "string \<Rightarrow> string" where
  "exactExtension contentType =
     (if contentType = ''image/png'' then ''.png''
      else if contentType = ''image/jpeg'' then ''.jpg''
      else if contentType = ''image/webp'' then ''.webp''
      else if contentType = ''image/gif'' then ''.gif''
      else [])"

definition exactSafeName :: "string \<Rightarrow> string option \<Rightarrow> string" where
  "exactSafeName contentType fn =
     (case fn of
        None \<Rightarrow> ''shared-image'' @ exactExtension contentType
      | Some f \<Rightarrow> if trim f \<noteq> [] then trim f
                  else ''shared-image'' @ exactExtension contentType)"

text \<open>The media type of a content type: the text before the first semicolon, trimmed, in lower case.\<close>

definition mediaType :: "string \<Rightarrow> string" where
  "mediaType contentType = trim (splitFirst CHR '';'' (toLowerCase contentType))"

text \<open>The events of getting at the image or of putting it on the clipboard.\<close>

definition touchesImage :: "event \<Rightarrow> bool" where
  "touchesImage ev =
     (case ev of
        Fetch u \<Rightarrow> True
      | NewURL p b \<Rightarrow> True
      | NewClipboardItem m \<Rightarrow> True
      | ClipboardWrite m \<Rightarrow> True
      | _ \<Rightarrow> False)"

text \<open>A computation that throws nothing, whatever happened before it.\<close>

definition returns :: "'a js \<Rightarrow> bool" where
  "returns m = (\<forall>h. \<exists>x h'. m h = (Inr x, h'))"

subsection \<open>Sample browsers\<close>

definition sample_blob :: blob where
  "sample_blob = \<lparr> blob_type = ''image/png'', blob_bytes = [137, 80, 78, 71] \<rparr>"

definition sample_response :: response where
  "sample_response = \<lparr> resp_ok = True, resp_blob = Inr sample_blob \<rparr>"

definition cdn_url :: string where
  "cdn_url = ''https://cdn.example/a.png''"

text \<open>A network where everything loads, one where only the image host refuses, one that is down.\<close>

definition open_fetch :: "event list \<Rightarrow> string \<Rightarrow> jsvalue + response" where
  "open_fetch h u = Inr sample_response"

definition cors_blocked_fetch :: "event list \<Rightarrow> string \<Rightarrow> jsvalue + response" where
  "cors_blocked_fetch h u =
     (if u = cdn_url then Inl (typeError ''Failed to fetch'') else Inr sample_response)"

definition offline_fetch :: "event list \<Rightarrow> string \<Rightarrow> jsvalue + response" where
  "offline_fetch h u = Inl (typeError ''Failed to fetch'')"

text \<open>A window whose two ways of navigating have the given outcomes.\<close>

definition sample_window :: "jsvalue + unit \<Rightarrow> jsvalue + unit \<Rightarrow> window" where
  "sample_window assigned opened =
     \<lparr> location_origin = TupleOrigin ''https://app.example'',
       location_assign = (\<lambda>h u. assigned),
       window_open = (\<lambda>h u t. opened) \<rparr>"

definition blocked :: "jsvalue + unit" where
  "blocked = Inl (jsError ''SecurityError'' ''The operation is insecure.'')"

text \<open>A navigator whose share sheet and clipboard write have the given outcomes.\<close>

definition sample_clipboard :: "jsvalue + unit \<Rightarrow> clipboard_api" where
  "sample_clipboard written = \<lparr> clip_write = Some (\<lambda>h m b. written) \<rparr>"

definition sample_navigator :: "jsvalue + unit \<Rightarrow> clipboard_api option \<Rightarrow> navigator" where
  "sample_navigator shared clip =
     \<lparr> nav_share = Function (\<lambda>h d. shared),
       nav_canShare = Function (\<lambda>h fs. Inr (JBool True)),
       nav_clipboard = clip \<rparr>"

definition old_navigator :: navigator where
  "old_navigator = \<lparr> nav_share = Absent, nav_canShare = Absent, nav_clipboard = None \<rparr>"

definition sample_env ::
  "window \<Rightarrow> navigator \<Rightarrow> (event list \<Rightarrow> string \<Rightarrow> jsvalue + response) \<Rightarrow> bool \<Rightarrow> env" where
  "sample_env w nav fetching hasClipboardItem =
     \<lparr> env_window = Some w,
       env_navigator = Some nav,
       env_fetch = fetching,
       env_ClipboardItem = (if hasClipboardItem then Some (\<lambda>h m b. Inr ()) else None),
       env_now = (\<lambda>h. 1765800000000) \<rparr>"

definition sample_options :: "bool option \<Rightarrow> direct_options" where
  "sample_options skip =
     \<lparr> imageUrl = cdn_url, filename = None, title = None, text_of = None,
       file_of = None, target = None, skipClipboard = skip \<rparr>"

definition sample_payload :: share_payload where
  "sample_payload =
     \<lparr> imageUrl = cdn_url, filename = None, title = Some ''A picture'', text_of = None,
       kind = ImageKind \<rparr>"

section \<open>Running the computations\<close>

lemmas js_defs = ret_def throw_def bnd_def try_catch_def call_def await_def

lemma returns_ret: "returns (ret x)"
  by (simp add: returns_def ret_def)

lemma returns_bnd:
  assumes "returns m" and "\<And>x. returns (f x)"
  shows "returns (bnd m f)"
  unfolding returns_def
proof
  fix h
  from assms(1) obtain x h1 where "m h = (Inr x, h1)"
    unfolding returns_def by blast
  moreover from assms(2) obtain y h2 where "f x h1 = (Inr y, h2)"
    unfolding returns_def by blast
  ultimately show "\<exists>y h'. bnd m f h = (Inr y, h')"
    by (simp add: bnd_def)
qed

lemma returns_try_catch:
  assumes "\<And>err. returns (handler err)"
  shows "returns (try_catch m handler)"
  unfolding returns_def
proof
  fix h
  obtain r h1 where run: "m h = (r, h1)" by (cases "m h")
  show "\<exists>x h'. try_catch m handler h = (Inr x, h')"
  proof (cases r)
    case (Inl err)
    from assms [of err] obtain x h2 where "handler err h1 = (Inr x, h2)"
      unfolding returns_def by blast
    with run Inl show ?thesis by (simp add: try_catch_def)
  next
    case (Inr x)
    with run show ?thesis by (simp add: try_catch_def)
  qed
qed

lemmas returns_intros = returns_ret returns_bnd returns_try_catch

lemma returnsD: "returns m \<Longrightarrow> \<exists>x h'. m h = (Inr x, h')"
  by (simp add: returns_def)

lemma kind_image: "k = ImageKind"
  by (cases k) simp

subsection \<open>Fetching\<close>

lemma tryFetchBlob_run:
  "tryFetchBlob e url h = (Inr (fetchedBlob (env_fetch e h url)), h @ [Fetch url])"
  by (simp add: tryFetchBlob_def fetchedBlob_def js_defs split: sum.splits)

lemma buildNextImageOptimizerUrl_run:
  "env_window e = Some w \<Longrightarrow> location_origin w = TupleOrigin s \<Longrightarrow>
   buildNextImageOptimizerUrl e url h =
     (Inr (optimizerUrl s url), h @ [NewURL ''/_next/image'' s])"
  by (simp add: buildNextImageOptimizerUrl_def the_window_def newURL_def originString_def
      optimizerUrl_def js_defs)

lemma fileFromUrl_direct_failed_no_options:
  "fetchedBlob (env_fetch e h url) = None \<Longrightarrow>
   fileFromUrl e url fn None h = (Inl fetchError, h @ [Fetch url])"
  by (simp add: fileFromUrl_def bnd_def throw_def tryFetchBlob_run)

subsection \<open>The clipboard\<close>

lemma isClipboardWriteSupported_run:
  "env_navigator e = Some nav \<Longrightarrow>
   isClipboardWriteSupported e h = (Inr (clipboardWriteCapable e nav), h)"
  by (simp add: isClipboardWriteSupported_def the_navigator_def clipboardWriteCapable_def
      js_defs split: option.splits)

lemma returns_isClipboardWriteSupported:
  "env_navigator e \<noteq> None \<Longrightarrow> returns (isClipboardWriteSupported e)"
  unfolding isClipboardWriteSupported_def the_navigator_def
  by (auto intro!: returns_intros split: option.splits)

lemma returns_tryWriteImageToClipboard:
  "env_navigator e \<noteq> None \<Longrightarrow> returns (tryWriteImageToClipboard e f)"
  unfolding tryWriteImageToClipboard_def the_navigator_def
  by (auto intro!: returns_intros simp add: Let_def split: option.splits)

lemma tryWriteImageToClipboard_run:
  assumes "env_navigator e = Some nav" and "nav_clipboard nav = Some clip"
    and "clip_write clip = Some wr" and "env_ClipboardItem e = Some ctor"
    and "mime = clipboardMime f" and "b = slice_all f mime"
  shows "tryWriteImageToClipboard e f h =
    (if ctor h mime b = Inr ()
     then (Inr (wr (h @ [NewClipboardItem mime]) mime b = Inr ()),
           h @ [NewClipboardItem mime, ClipboardWrite mime])
     else (Inr False, h @ [NewClipboardItem mime]))"
  using assms
  by (auto simp add: tryWriteImageToClipboard_def the_navigator_def js_defs Let_def
      split: sum.splits)

lemma directClipboardStep_skip:
  "skipClipboard options = Some True \<Longrightarrow>
   directClipboardStep e options h = (Inr (False, clip_skipped, None), h)"
  by (simp add: directClipboardStep_def ret_def)

lemma directClipboardStep_unsupported:
  "env_navigator e = Some nav \<Longrightarrow> \<not> clipboardWriteCapable e nav \<Longrightarrow>
   skipClipboard options \<noteq> Some True \<Longrightarrow>
   directClipboardStep e options h = (Inr (False, clip_not_supported, None), h)"
  by (simp add: directClipboardStep_def isClipboardWriteSupported_run bnd_def ret_def)

lemma returns_directClipboardStep:
  "env_navigator e \<noteq> None \<Longrightarrow> returns (directClipboardStep e options)"
  unfolding directClipboardStep_def
  by (auto intro!: returns_intros returns_isClipboardWriteSupported simp add: Let_def)

lemma try_catch_cases:
  assumes "try_catch m handler h = (Inr x, h')"
  shows "m h = (Inr x, h') \<or> (\<exists>err h1. m h = (Inl err, h1) \<and> handler err h1 = (Inr x, h'))"
  using assms by (auto simp add: try_catch_def split: prod.splits sum.splits)

lemma bnd_cases:
  assumes "bnd m f h = (Inr y, h')"
  shows "\<exists>x h1. m h = (Inr x, h1) \<and> f x h1 = (Inr y, h')"
  using assms by (auto simp add: bnd_def split: prod.splits sum.splits)

lemma bnd_isClipboardWriteSupported:
  "env_navigator e = Some nav \<Longrightarrow>
   bnd (isClipboardWriteSupported e) f h = f (clipboardWriteCapable e nav) h"
  by (simp add: bnd_def isClipboardWriteSupported_run)

lemma directClipboardStep_copied:
  assumes "env_navigator e = Some nav"
    and "directClipboardStep e options h = (Inr (ok, status, via), hc)"
  shows "ok \<longleftrightarrow> status = clip_copied"
proof (cases "skipClipboard options = Some True")
  case True
  with assms(2) show ?thesis by (simp add: directClipboardStep_skip)
next
  case False
  note not_skipped = this
  show ?thesis
  proof (cases "clipboardWriteCapable e nav")
    case False
    with assms not_skipped show ?thesis by (simp add: directClipboardStep_unsupported)
  next
    case True
    from assms(2) True not_skipped
    have "try_catch
        (bnd (case file_of options of
                Some f \<Rightarrow> ret f
              | None \<Rightarrow>
                  fileFromUrl e (imageUrl options) (filename options)
                    (Some \<lparr> allowNextImageOptimizerFallback = Some True \<rparr>))
           (\<lambda>prepared.
              bnd (tryWriteImageToClipboard e prepared) (\<lambda>clipboardOk.
                ret (clipboardOk,
                     if clipboardOk then clip_copied else clip_failed,
                     file_fetchedVia prepared))))
        (\<lambda>error. ret (False, clip_failed, None)) h = (Inr (ok, status, via), hc)"
      by (simp add: directClipboardStep_def bnd_isClipboardWriteSupported [OF assms(1)])
    from try_catch_cases [OF this] show ?thesis
    proof
      assume "bnd (case file_of options of
                Some f \<Rightarrow> ret f
              | None \<Rightarrow>
                  fileFromUrl e (imageUrl options) (filename options)
                    (Some \<lparr> allowNextImageOptimizerFallback = Some True \<rparr>))
           (\<lambda>prepared.
              bnd (tryWriteImageToClipboard e prepared) (\<lambda>clipboardOk.
                ret (clipboardOk,
                     if clipboardOk then clip_copied else clip_failed,
                     file_fetchedVia prepared))) h = (Inr (ok, status, via), hc)"
      from bnd_cases [OF this] obtain prepared hp where
        "bnd (tryWriteImageToClipboard e prepared) (\<lambda>clipboardOk.
           ret (clipboardOk, if clipboardOk then clip_copied else clip_failed,
                file_fetchedVia prepared)) hp = (Inr (ok, status, via), hc)"
        by blast
      from bnd_cases [OF this] obtain clipboardOk hw where
        "ret (clipboardOk, if clipboardOk then clip_copied else clip_failed,
              file_fetchedVia prepared) hw = (Inr (ok, status, via), hc)"
        by blast
      then show ?thesis by (auto simp add: ret_def)
    next
      assume "\<exists>err h1. bnd (case file_of options of
                Some f \<Rightarrow> ret f
              | None \<Rightarrow>
                  fileFromUrl e (imageUrl options) (filename options)
                    (Some \<lparr> allowNextImageOptimizerFallback = Some True \<rparr>))
           (\<lambda>prepared.
              bnd (tryWriteImageToClipboard e prepared) (\<lambda>clipboardOk.
                ret (clipboardOk,
                     if clipboardOk then clip_copied else clip_failed,
                     file_fetchedVia prepared))) h = (Inl err, h1)
          \<and> ret (False, clip_failed, None) h1 = (Inr (ok, status, via), hc)"
      then show ?thesis by (auto simp add: ret_def)
    qed
  qed
qed

subsection \<open>The deep link\<close>

lemma tryOpenDeepLink_run:
  assumes "env_window e = Some w"
  shows "tryOpenDeepLink e url h =
    (if location_assign w h url = Inr () then (Inr True, h @ [LocationAssign url])
     else (Inr (window_open w (h @ [LocationAssign url]) url ''_blank'' = Inr ()),
           h @ [LocationAssign url, WindowOpen url ''_blank'']))"
  using assms
  by (auto simp add: tryOpenDeepLink_def the_window_def js_defs split: sum.splits)

lemma tryOpenDeepLink_no_window:
  "env_window e = None \<Longrightarrow> tryOpenDeepLink e url h = (Inr False, h)"
  by (simp add: tryOpenDeepLink_def the_window_def js_defs)

lemma returns_tryOpenDeepLink: "returns (tryOpenDeepLink e url)"
  unfolding tryOpenDeepLink_def by (intro returns_intros)

subsection \<open>The two flows\<close>

lemma direct_in_browser:
  assumes "env_window e = Some w" and "env_navigator e = Some nav"
    and "directClipboardStep e options h = (Inr (ok, status, via), h1)"
    and "url = deepLinkUrl (target options)"
  shows "shareImageToInstagramDirect e options h =
    (if location_assign w h1 url = Inr ()
        \<or> window_open w (h1 @ [LocationAssign url]) url ''_blank'' = Inr ()
     then (Inr (Success Instagram (if ok then deep_link_clipboard else deep_link)
             (Some \<lparr> clipboard = status, deepLinkOpened = Some True, fetchedVia = via \<rparr>)),
           if location_assign w h1 url = Inr () then h1 @ [LocationAssign url]
           else h1 @ [LocationAssign url, WindowOpen url ''_blank''])
     else (Inr (Failure Instagram not_supported None),
           h1 @ [LocationAssign url, WindowOpen url ''_blank'']))"
  using assms
  by (simp add: shareImageToInstagramDirect_def Let_def bnd_def ret_def
      tryOpenDeepLink_run [OF assms(1)])

lemma returns_shareImageToInstagramDirect: "returns (shareImageToInstagramDirect e options)"
  unfolding shareImageToInstagramDirect_def
  by (auto intro!: returns_intros returns_directClipboardStep returns_tryOpenDeepLink
      simp add: Let_def split: prod.splits)

lemma returns_canShareStep: "returns (canShareStep nav f)"
  unfolding canShareStep_def by (intro returns_intros)

lemma returns_shareImageViaWebShare: "returns (shareImageViaWebShare e payload)"
  unfolding shareImageViaWebShare_def
  by (auto intro!: returns_intros returns_canShareStep
      simp add: Let_def split: option.splits member.splits sum.splits)

lemma isAbortError_iff:
  "isAbortError err \<longleftrightarrow>
     (\<exists>ps. err = JObject ps \<and> map_of ps ''name'' = Some (JString ''AbortError''))"
  by (cases err) (auto simp add: isAbortError_def split: option.splits)

section \<open>The sample browsers, evaluated\<close>

lemmas sample_defs =
  sample_env_def sample_window_def sample_navigator_def sample_clipboard_def
  old_navigator_def sample_options_def sample_payload_def sample_blob_def
  sample_response_def cdn_url_def open_fetch_def cors_blocked_fetch_def offline_fetch_def
  blocked_def

lemma sample_optimizerUrl:
  "optimizerUrl ''https://app.example'' cdn_url =
     ''https://app.example/_next/image?url=https%3A%2F%2Fcdn.example%2Fa.png&w=1080&q=90''"
  by code_simp

lemma sample_png_name: "safeName ''image/png'' None = ''shared-image.png''"
  by code_simp

lemma sample_png_type: "normalizeType ''image/png'' = ''image/png''"
  by code_simp

lemma sample_png_mime:
  "clipboardMime \<lparr> file_name = ''shared-image.png'', file_type = ''image/png'',
       file_lastModified = t, file_bytes = bs, file_fetchedVia = via \<rparr> = ''image/png''"
  by (simp add: clipboardMime_def inferImageMime_def startsWith_def)

section \<open>The direct flow\<close>

text \<open>
  C1. In a browser, the direct flow never fails because of the clipboard alone: whatever
  its clipboard step did (the fetch for it failed, the \<^verbatim>\<open>ClipboardItem\<close> constructor or
  \<^verbatim>\<open>clipboard.write\<close> threw, the capability was missing, the step was skipped), when the deep
  link opens after it (the navigation in the same window returns, or the opening of a new
  context after it does) the result is a success that reports the status of the clipboard
  step, with \<^verbatim>\<open>deepLinkOpened: true\<close> and with the method \<^verbatim>\<open>deep_link_clipboard\<close> exactly when
  the status is \<^verbatim>\<open>copied\<close>. In particular, where the clipboard cannot be written (no truthy
  \<^verbatim>\<open>navigator.clipboard\<close> with a \<^verbatim>\<open>write\<close> function, or no \<^verbatim>\<open>ClipboardItem\<close>) and
  \<^verbatim>\<open>skipClipboard\<close> is not set, the clipboard step records no event and a deep link that
  opens gives the success with method \<^verbatim>\<open>deep_link\<close> and the details
  \<^verbatim>\<open>clipboard: "not_supported"\<close>, \<^verbatim>\<open>deepLinkOpened: true\<close>.
\<close>

theorem direct_clipboard_unsupported:
  assumes "env_window e = Some w" and "env_navigator e = Some nav"
    and "hc = snd (directClipboardStep e options h)"
    and "url = deepLinkUrl (target options)"
  shows "(location_assign w hc url = Inr ()
            \<or> window_open w (hc @ [LocationAssign url]) url ''_blank'' = Inr ()
          \<longrightarrow> (\<exists>ok status via.
                 fst (directClipboardStep e options h) = Inr (ok, status, via)
                 \<and> (ok \<longleftrightarrow> status = clip_copied)
                 \<and> fst (shareImageToInstagramDirect e options h) =
                     Inr (Success Instagram (if ok then deep_link_clipboard else deep_link)
                       (Some \<lparr> clipboard = status, deepLinkOpened = Some True,
                               fetchedVia = via \<rparr>))))
     \<and> (\<not> clipboardWriteCapable e nav \<and> skipClipboard options \<noteq> Some True
          \<and> (location_assign w h url = Inr ()
               \<or> window_open w (h @ [LocationAssign url]) url ''_blank'' = Inr ())
          \<longrightarrow> hc = h
              \<and> fst (shareImageToInstagramDirect e options h) =
                  Inr (Success Instagram deep_link
                    (Some \<lparr> clipboard = clip_not_supported, deepLinkOpened = Some True,
                            fetchedVia = None \<rparr>)))"
proof (intro conjI impI)
  assume opens: "location_assign w hc url = Inr ()
      \<or> window_open w (hc @ [LocationAssign url]) url ''_blank'' = Inr ()"
  from assms(2) have "returns (directClipboardStep e options)"
    by (simp add: returns_directClipboardStep)
  then obtain r h' where run: "directClipboardStep e options h = (Inr r, h')"
    using returnsD by blast
  obtain ok status via where r: "r = (ok, status, via)" by (cases r)
  from run assms(3) have h': "h' = hc" by simp
  note step = run [unfolded r h']
  have "ok \<longleftrightarrow> status = clip_copied"
    by (rule directClipboardStep_copied [OF assms(2) step])
  moreover have "fst (shareImageToInstagramDirect e options h) =
      Inr (Success Instagram (if ok then deep_link_clipboard else deep_link)
        (Some \<lparr> clipboard = status, deepLinkOpened = Some True, fetchedVia = via \<rparr>))"
    using opens by (simp add: direct_in_browser [OF assms(1,2) step assms(4)])
  ultimately show "\<exists>ok status via.
      fst (directClipboardStep e options h) = Inr (ok, status, via)
      \<and> (ok \<longleftrightarrow> status = clip_copied)
      \<and> fst (shareImageToInstagramDirect e options h) =
          Inr (Success Instagram (if ok then deep_link_clipboard else deep_link)
            (Some \<lparr> clipboard = status, deepLinkOpened = Some True, fetchedVia = via \<rparr>))"
    using step by auto
next
  assume a: "\<not> clipboardWriteCapable e nav \<and> skipClipboard options \<noteq> Some True
      \<and> (location_assign w h url = Inr ()
           \<or> window_open w (h @ [LocationAssign url]) url ''_blank'' = Inr ())"
  then have step: "directClipboardStep e options h = (Inr (False, clip_not_supported, None), h)"
    using directClipboardStep_unsupported [OF assms(2)] by blast
  with assms(3) show "hc = h" by simp
  from a show "fst (shareImageToInstagramDirect e options h) =
      Inr (Success Instagram deep_link
        (Some \<lparr> clipboard = clip_not_supported, deepLinkOpened = Some True,
                fetchedVia = None \<rparr>))"
    by (auto simp add: direct_in_browser [OF assms(1,2) step assms(4)])
qed

theorem direct_clipboard_unsupported_witness:
  "fst (shareImageToInstagramDirect
          (sample_env (sample_window (Inr ()) blocked)
             (sample_navigator (Inr ()) (Some (sample_clipboard blocked))) open_fetch True)
          (sample_options None) []) =
     Inr (Success Instagram deep_link
       (Some \<lparr> clipboard = clip_failed, deepLinkOpened = Some True,
               fetchedVia = Some direct \<rparr>))
   \<and> fst (shareImageToInstagramDirect
          (sample_env (sample_window blocked (Inr ()))
             (sample_navigator (Inr ()) (Some (sample_clipboard (Inr ())))) offline_fetch True)
          (sample_options None) []) =
     Inr (Success Instagram deep_link
       (Some \<lparr> clipboard = clip_failed, deepLinkOpened = Some True, fetchedVia = None \<rparr>))
   \<and> fst (shareImageToInstagramDirect
          (sample_env (sample_window (Inr ()) (Inr ())) old_navigator open_fetch True)
          (sample_options (Some False)) []) =
     Inr (Success Instagram deep_link
       (Some \<lparr> clipboard = clip_not_supported, deepLinkOpened = Some True,
               fetchedVia = None \<rparr>))"
proof (intro conjI)
  let ?url = "''instagram://story-camera''"
  have url: "?url = deepLinkUrl (target (sample_options skip))" for skip
    by (simp add: deepLinkUrl_def sample_options_def)
  show "fst (shareImageToInstagramDirect
          (sample_env (sample_window (Inr ()) blocked)
             (sample_navigator (Inr ()) (Some (sample_clipboard blocked))) open_fetch True)
          (sample_options None) []) =
     Inr (Success Instagram deep_link
       (Some \<lparr> clipboard = clip_failed, deepLinkOpened = Some True,
               fetchedVia = Some direct \<rparr>))"
  proof -
    let ?w = "sample_window (Inr ()) blocked"
    let ?nav = "sample_navigator (Inr ()) (Some (sample_clipboard blocked))"
    let ?e = "sample_env ?w ?nav open_fetch True"
    have w: "env_window ?e = Some ?w" by (simp add: sample_env_def)
    have nav: "env_navigator ?e = Some ?nav" by (simp add: sample_env_def)
    have step: "directClipboardStep ?e (sample_options None) [] =
        (Inr (False, clip_failed, Some direct),
         [Fetch cdn_url, NewClipboardItem ''image/png'', ClipboardWrite ''image/png''])"
      by (simp add: directClipboardStep_def isClipboardWriteSupported_def the_navigator_def
          fileFromUrl_def tryFetchBlob_def fileFromBlob_def tryWriteImageToClipboard_def
          slice_all_def sample_png_name sample_png_type sample_png_mime Let_def js_defs
          sample_defs)
    have opens: "location_assign ?w hc u = Inr ()" for hc u
      by (simp add: sample_window_def)
    from direct_clipboard_unsupported
        [where options = "sample_options None" and h = "[]", OF w nav refl url,
         THEN conjunct1] opens
    show ?thesis by (auto simp add: step)
  qed
  show "fst (shareImageToInstagramDirect
          (sample_env (sample_window blocked (Inr ()))
             (sample_navigator (Inr ()) (Some (sample_clipboard (Inr ())))) offline_fetch True)
          (sample_options None) []) =
     Inr (Success Instagram deep_link
       (Some \<lparr> clipboard = clip_failed, deepLinkOpened = Some True, fetchedVia = None \<rparr>))"
  proof -
    let ?w = "sample_window blocked (Inr ())"
    let ?nav = "sample_navigator (Inr ()) (Some (sample_clipboard (Inr ())))"
    let ?e = "sample_env ?w ?nav offline_fetch True"
    have w: "env_window ?e = Some ?w" by (simp add: sample_env_def)
    have nav: "env_navigator ?e = Some ?nav" by (simp add: sample_env_def)
    have step: "fst (directClipboardStep ?e (sample_options None) []) =
        Inr (False, clip_failed, None)"
      by (simp add: directClipboardStep_def isClipboardWriteSupported_def the_navigator_def
          the_window_def fileFromUrl_def tryFetchBlob_def buildNextImageOptimizerUrl_def
          newURL_def Let_def js_defs sample_defs)
    have opens: "window_open ?w hc u t = Inr ()" for hc u t
      by (simp add: sample_window_def)
    from direct_clipboard_unsupported
        [where options = "sample_options None" and h = "[]", OF w nav refl url,
         THEN conjunct1] opens
    show ?thesis by (auto simp add: step)
  qed
  show "fst (shareImageToInstagramDirect
          (sample_env (sample_window (Inr ()) (Inr ())) old_navigator open_fetch True)
          (sample_options (Some False)) []) =
     Inr (Success Instagram deep_link
       (Some \<lparr> clipboard = clip_not_supported, deepLinkOpened = Some True,
               fetchedVia = None \<rparr>))"
  proof -
    let ?w = "sample_window (Inr ()) (Inr ())"
    let ?e = "sample_env ?w old_navigator open_fetch True"
    have w: "env_window ?e = Some ?w" by (simp add: sample_env_def)
    have nav: "env_navigator ?e = Some old_navigator" by (simp add: sample_env_def)
    have incapable: "\<not> clipboardWriteCapable ?e old_navigator"
      by (simp add: clipboardWriteCapable_def old_navigator_def)
    have unset: "skipClipboard (sample_options (Some False)) \<noteq> Some True"
      by (simp add: sample_options_def)
    have opens: "location_assign ?w hc u = Inr ()" for hc u
      by (simp add: sample_window_def)
    from direct_clipboard_unsupported
        [where options = "sample_options (Some False)" and h = "[]", OF w nav refl url,
         THEN conjunct2] incapable unset opens
    show ?thesis by blast
  qed
qed

text \<open>
  C2. In a browser, when both ways of opening the deep link throw (at the moment the flow
  tries them, after its clipboard step), the direct flow returns the failure
  \<^verbatim>\<open>not_supported\<close>, whatever the clipboard step did.
\<close>

theorem direct_deep_link_failure:
  assumes "env_window e = Some w" and "env_navigator e = Some nav"
    and "h1 = snd (directClipboardStep e options h)"
    and "url = deepLinkUrl (target options)"
    and "location_assign w h1 url = Inl erra"
    and "window_open w (h1 @ [LocationAssign url]) url ''_blank'' = Inl errb"
  shows "shareImageToInstagramDirect e options h =
     (Inr (Failure Instagram not_supported None),
      h1 @ [LocationAssign url, WindowOpen url ''_blank''])"
proof -
  from assms(2) have "returns (directClipboardStep e options)"
    by (simp add: returns_directClipboardStep)
  then obtain r h' where run: "directClipboardStep e options h = (Inr r, h')"
    using returnsD by blast
  obtain ok status via where r: "r = (ok, status, via)" by (cases r)
  from run assms(3) have h': "h' = h1" by simp
  show ?thesis
    using assms(5,6)
    by (simp add: direct_in_browser [OF assms(1,2) run [unfolded r h'] assms(4)])
qed

theorem direct_deep_link_failure_witness:
  "shareImageToInstagramDirect
     (sample_env (sample_window blocked blocked)
        (sample_navigator (Inr ()) (Some (sample_clipboard (Inr ())))) open_fetch True)
     (sample_options None) [] =
   (Inr (Failure Instagram not_supported None),
    [Fetch cdn_url, NewClipboardItem ''image/png'', ClipboardWrite ''image/png'',
     LocationAssign ''instagram://story-camera'',
     WindowOpen ''instagram://story-camera'' ''_blank''])"
proof -
  let ?e = "sample_env (sample_window blocked blocked)
        (sample_navigator (Inr ()) (Some (sample_clipboard (Inr ())))) open_fetch True"
  have step: "directClipboardStep ?e (sample_options None) [] =
      (Inr (True, clip_copied, Some direct),
       [Fetch cdn_url, NewClipboardItem ''image/png'', ClipboardWrite ''image/png''])"
    by (simp add: directClipboardStep_def isClipboardWriteSupported_def the_navigator_def
        fileFromUrl_def tryFetchBlob_def fileFromBlob_def tryWriteImageToClipboard_def
        slice_all_def sample_png_name sample_png_type sample_png_mime Let_def js_defs
        sample_defs)
  have w: "env_window ?e = Some (sample_window blocked blocked)"
    by (simp add: sample_env_def)
  have nav: "env_navigator ?e
      = Some (sample_navigator (Inr ()) (Some (sample_clipboard (Inr ()))))"
    by (simp add: sample_env_def)
  have hist: "[Fetch cdn_url, NewClipboardItem ''image/png'', ClipboardWrite ''image/png'']
      = snd (directClipboardStep ?e (sample_options None) [])"
    by (simp add: step)
  have url: "''instagram://story-camera'' = deepLinkUrl (target (sample_options None))"
    by (simp add: deepLinkUrl_def sample_options_def)
  have assign: "location_assign (sample_window blocked blocked) hc u
      = Inl (jsError ''SecurityError'' ''The operation is insecure.'')" for hc u
    by (simp add: sample_window_def blocked_def)
  have popup: "window_open (sample_window blocked blocked) hc u t
      = Inl (jsError ''SecurityError'' ''The operation is insecure.'')" for hc u t
    by (simp add: sample_window_def blocked_def)
  from direct_deep_link_failure [OF w nav hist url assign popup]
  show ?thesis by simp
qed

text \<open>
  C10. In a browser, with \<^verbatim>\<open>skipClipboard\<close> set, the direct flow fetches nothing and writes
  nothing to the clipboard: its only events are the navigation and, when that throws, the
  opening of a new context. When either opens the deep link the result is the success
  with method \<^verbatim>\<open>deep_link\<close>, \<^verbatim>\<open>clipboard: "skipped"\<close>, \<^verbatim>\<open>deepLinkOpened: true\<close> and no
  \<^verbatim>\<open>fetchedVia\<close>; the method is never \<^verbatim>\<open>deep_link_clipboard\<close>.
\<close>

theorem direct_skip_clipboard:
  assumes "env_window e = Some w" and "env_navigator e = Some nav"
    and "skipClipboard options = Some True"
    and "url = deepLinkUrl (target options)"
  shows "(\<exists>evs. snd (shareImageToInstagramDirect e options h) = h @ evs
            \<and> \<not> list_ex touchesImage evs)
     \<and> fst (shareImageToInstagramDirect e options h) =
        (if location_assign w h url = Inr ()
            \<or> window_open w (h @ [LocationAssign url]) url ''_blank'' = Inr ()
         then Inr (Success Instagram deep_link
                (Some \<lparr> clipboard = clip_skipped, deepLinkOpened = Some True,
                        fetchedVia = None \<rparr>))
         else Inr (Failure Instagram not_supported None))
     \<and> (\<forall>p d. fst (shareImageToInstagramDirect e options h)
            \<noteq> Inr (Success p deep_link_clipboard d))"
  by (simp add: direct_in_browser
        [OF assms(1,2) directClipboardStep_skip [OF assms(3)] assms(4)] touchesImage_def)

theorem direct_skip_clipboard_witness:
  "snd (shareImageToInstagramDirect
          (sample_env (sample_window blocked (Inr ()))
             (sample_navigator (Inr ()) (Some (sample_clipboard (Inr ())))) open_fetch True)
          (sample_options (Some True)) []) =
     [] @ [LocationAssign ''instagram://story-camera'',
           WindowOpen ''instagram://story-camera'' ''_blank'']
   \<and> fst (shareImageToInstagramDirect
          (sample_env (sample_window blocked (Inr ()))
             (sample_navigator (Inr ()) (Some (sample_clipboard (Inr ())))) open_fetch True)
          (sample_options (Some True)) []) =
     Inr (Success Instagram deep_link
       (Some \<lparr> clipboard = clip_skipped, deepLinkOpened = Some True, fetchedVia = None \<rparr>))"
proof -
  let ?e = "sample_env (sample_window blocked (Inr ()))
             (sample_navigator (Inr ()) (Some (sample_clipboard (Inr ())))) open_fetch True"
  have run: "shareImageToInstagramDirect ?e (sample_options (Some True)) [] =
      (Inr (Success Instagram deep_link
         (Some \<lparr> clipboard = clip_skipped, deepLinkOpened = Some True, fetchedVia = None \<rparr>)),
       [LocationAssign ''instagram://story-camera'',
        WindowOpen ''instagram://story-camera'' ''_blank''])"
    by (simp add: shareImageToInstagramDirect_def directClipboardStep_def tryOpenDeepLink_def
        the_window_def deepLinkUrl_def Let_def js_defs sample_defs)
  show ?thesis
    using direct_skip_clipboard [where e = ?e and options = "sample_options (Some True)"
        and h = "[]" and w = "sample_window blocked (Inr ())"
        and nav = "sample_navigator (Inr ()) (Some (sample_clipboard (Inr ())))"
        and url = "''instagram://story-camera''"]
    by (simp add: run)
qed

section \<open>The deep-link opener\<close>

text \<open>
  C8. \<^verbatim>\<open>tryOpenDeepLink\<close> never throws. In a window it first navigates in the same
  window; when that returns, nothing else is tried and the result is \<^verbatim>\<open>true\<close>; only when it
  throws is a new browsing context opened, and the result is \<^verbatim>\<open>true\<close> when that returns and
  \<^verbatim>\<open>false\<close> when that throws too.
\<close>

theorem tryOpenDeepLink_order:
  "(\<exists>b h'. tryOpenDeepLink e url h = (Inr b, h'))
   \<and> (\<forall>w. env_window e = Some w \<longrightarrow>
        tryOpenDeepLink e url h =
          (if location_assign w h url = Inr () then (Inr True, h @ [LocationAssign url])
           else (Inr (window_open w (h @ [LocationAssign url]) url ''_blank'' = Inr ()),
                 h @ [LocationAssign url, WindowOpen url ''_blank''])))"
  using returnsD [OF returns_tryOpenDeepLink, of e url h]
  by (simp add: tryOpenDeepLink_run)

theorem tryOpenDeepLink_order_witness:
  "tryOpenDeepLink (sample_env (sample_window blocked (Inr ())) old_navigator open_fetch False)
     ''instagram://app'' [] =
   (Inr True, [LocationAssign ''instagram://app'', WindowOpen ''instagram://app'' ''_blank''])
   \<and> tryOpenDeepLink (sample_env (sample_window blocked blocked) old_navigator open_fetch False)
     ''instagram://app'' [] =
   (Inr False, [LocationAssign ''instagram://app'', WindowOpen ''instagram://app'' ''_blank''])
   \<and> tryOpenDeepLink (sample_env (sample_window (Inr ()) blocked) old_navigator open_fetch False)
     ''instagram://app'' [] =
   (Inr True, [LocationAssign ''instagram://app''])"
  using tryOpenDeepLink_order
      [of "sample_env (sample_window blocked (Inr ())) old_navigator open_fetch False"
          "''instagram://app''" "[]"]
    tryOpenDeepLink_order
      [of "sample_env (sample_window blocked blocked) old_navigator open_fetch False"
          "''instagram://app''" "[]"]
    tryOpenDeepLink_order
      [of "sample_env (sample_window (Inr ()) blocked) old_navigator open_fetch False"
          "''instagram://app''" "[]"]
  by (simp add: sample_env_def sample_window_def blocked_def)

section \<open>The Web Share flow\<close>

text \<open>
  C3. In a browser whose \<^verbatim>\<open>navigator\<close> has no \<^verbatim>\<open>share\<close>, or a \<^verbatim>\<open>share\<close> that is not a function,
  the Web Share flow returns the failure \<^verbatim>\<open>not_supported\<close> and records no event at all: the
  image is not fetched.
\<close>

theorem web_share_without_share:
  assumes "env_window e = Some w" and "env_navigator e = Some nav"
    and "nav_share nav = Absent \<or> (\<exists>v. nav_share nav = NotFunction v)"
  shows "shareImageViaWebShare e payload h = (Inr (Failure Instagram not_supported None), h)"
  using assms by (auto simp add: shareImageViaWebShare_def ret_def)

theorem web_share_without_share_witness:
  "shareImageViaWebShare
     (sample_env (sample_window (Inr ()) (Inr ())) old_navigator open_fetch True)
     sample_payload [] =
   (Inr (Failure Instagram not_supported None), [])"
  by (rule web_share_without_share
        [where w = "sample_window (Inr ()) (Inr ())" and nav = old_navigator])
     (simp_all add: sample_env_def old_navigator_def)

text \<open>
  C9. In a browser with a \<^verbatim>\<open>share\<close> function, when the fetch of the image URL fails, the Web
  Share flow returns the failure \<^verbatim>\<open>fetch_failed\<close> carrying the error of \<^verbatim>\<open>fileFromUrl\<close>, and
  its only event is that one fetch: no optimizer URL is built and none is requested.
\<close>

theorem web_share_no_fallback:
  assumes "env_window e = Some w" and "env_navigator e = Some nav"
    and "nav_share nav = Function shareFn"
    and "fetchedBlob (env_fetch e h (imageUrl payload)) = None"
  shows "shareImageViaWebShare e payload h =
     (Inr (Failure Instagram fetch_failed (Some fetchError)), h @ [Fetch (imageUrl payload)])"
  using assms
  by (simp add: shareImageViaWebShare_def kind_image [of "kind payload"]
      fileFromUrl_direct_failed_no_options bnd_def try_catch_def ret_def)

theorem web_share_no_fallback_witness:
  "shareImageViaWebShare
     (sample_env (sample_window (Inr ()) (Inr ())) (sample_navigator (Inr ()) None)
        cors_blocked_fetch True)
     sample_payload [] =
   (Inr (Failure Instagram fetch_failed (Some fetchError)), [] @ [Fetch cdn_url])"
proof -
  let ?e = "sample_env (sample_window (Inr ()) (Inr ())) (sample_navigator (Inr ()) None)
        cors_blocked_fetch True"
  have w: "env_window ?e = Some (sample_window (Inr ()) (Inr ()))"
    by (simp add: sample_env_def)
  have nav: "env_navigator ?e = Some (sample_navigator (Inr ()) None)"
    by (simp add: sample_env_def)
  have sharing: "nav_share (sample_navigator (Inr ()) None) = Function (\<lambda>h d. Inr ())"
    by (simp add: sample_navigator_def)
  have failed: "fetchedBlob (env_fetch ?e [] (imageUrl sample_payload)) = None"
    by (simp add: fetchedBlob_def sample_env_def cors_blocked_fetch_def sample_payload_def)
  from web_share_no_fallback [OF w nav sharing failed]
  show ?thesis by (simp add: sample_payload_def)
qed

text \<open>
  C5. In a browser with a \<^verbatim>\<open>share\<close> function, once the image is fetched and \<^verbatim>\<open>canShare\<close> has
  not rejected it, a value thrown by \<^verbatim>\<open>navigator.share\<close> is mapped as follows: an object
  whose \<^verbatim>\<open>name\<close> is the string \<^verbatim>\<open>AbortError\<close> gives \<^verbatim>\<open>user_cancelled\<close>; every other value gives
  \<^verbatim>\<open>unknown\<close>; in both cases the value is attached as \<^verbatim>\<open>error\<close>.
\<close>

theorem web_share_error_mapping:
  assumes "env_window e = Some w" and "env_navigator e = Some nav"
    and "nav_share nav = Function shareFn"
    and "fileFromUrl e (imageUrl payload) (filename payload) None h = (Inr f, hf)"
    and "canShareStep nav f hf = (Inr None, hc)"
    and "shareFn hc \<lparr> data_files = [f], data_title = title payload,
                       data_text = text_of payload \<rparr> = Inl err"
  shows "fst (shareImageViaWebShare e payload h) =
     Inr (Failure Instagram
       (if \<exists>ps. err = JObject ps \<and> map_of ps ''name'' = Some (JString ''AbortError'')
        then user_cancelled else unknown)
       (Some err))"
  using assms
  by (simp add: shareImageViaWebShare_def kind_image [of "kind payload"] js_defs Let_def
      isAbortError_iff [symmetric])

theorem web_share_error_mapping_witness:
  "fst (shareImageViaWebShare
     (sample_env (sample_window (Inr ()) (Inr ()))
        (sample_navigator (Inl (jsError ''AbortError'' ''Share canceled'')) None)
        open_fetch True)
     sample_payload []) =
   Inr (Failure Instagram user_cancelled (Some (jsError ''AbortError'' ''Share canceled'')))
   \<and> fst (shareImageViaWebShare
     (sample_env (sample_window (Inr ()) (Inr ()))
        (sample_navigator (Inl (JString ''AbortError'')) None) open_fetch True)
     sample_payload []) =
   Inr (Failure Instagram unknown (Some (JString ''AbortError'')))"
proof -
  let ?w = "sample_window (Inr ()) (Inr ())"
  let ?f = "\<lparr> file_name = ''shared-image.png'', file_type = ''image/png'',
       file_lastModified = 1765800000000, file_bytes = [137, 80, 78, 71],
       file_fetchedVia = Some direct \<rparr>"
  have fetched: "fileFromUrl (sample_env ?w (sample_navigator shared None) open_fetch True)
       (imageUrl sample_payload) (filename sample_payload) None [] = (Inr ?f, [Fetch cdn_url])"
    for shared
    by (simp add: fileFromUrl_def tryFetchBlob_def fileFromBlob_def sample_png_name
        sample_png_type Let_def js_defs sample_defs)
  have asked: "canShareStep (sample_navigator shared None) ?f [Fetch cdn_url]
      = (Inr None, [Fetch cdn_url, CanShare [?f]])" for shared
    by (simp add: canShareStep_def canShareVerdict_def js_defs sample_navigator_def)
  have w: "env_window (sample_env ?w (sample_navigator shared None) open_fetch True) = Some ?w"
    for shared
    by (simp add: sample_env_def)
  have nav: "env_navigator (sample_env ?w (sample_navigator shared None) open_fetch True)
      = Some (sample_navigator shared None)" for shared
    by (simp add: sample_env_def)
  have sharing: "nav_share (sample_navigator shared None) = Function (\<lambda>h d. shared)"
    for shared
    by (simp add: sample_navigator_def)
  from web_share_error_mapping [OF w nav sharing fetched asked,
      of "Inl (jsError ''AbortError'' ''Share canceled'')"
         "jsError ''AbortError'' ''Share canceled''"]
    web_share_error_mapping [OF w nav sharing fetched asked,
      of "Inl (JString ''AbortError'')" "JString ''AbortError''"]
  show ?thesis by (simp add: jsError_def)
qed

section \<open>Fetching the image\<close>

text \<open>
  C4. With the optimizer fallback allowed, in a window whose page has a tuple origin \<open>s\<close>:
  when the fetch of the image URL fails, \<^verbatim>\<open>fileFromUrl\<close> builds the URL of \<^verbatim>\<open>/_next/image\<close> on
  \<open>s\<close> (the image URL as the parameter \<^verbatim>\<open>url\<close>, then \<^verbatim>\<open>w=1080\<close> and \<^verbatim>\<open>q=90\<close>) and fetches it.
  When that fetch succeeds the result is the file made of its blob, tagged
  \<^verbatim>\<open>next_image_optimizer\<close>; when it fails too, \<^verbatim>\<open>fileFromUrl\<close> throws its error.
\<close>

theorem fileFromUrl_optimizer_fallback:
  assumes "env_window e = Some w" and "location_origin w = TupleOrigin s"
    and "allowNextImageOptimizerFallback os = Some True"
    and "fetchedBlob (env_fetch e h url) = None"
    and "h2 = h @ [Fetch url, NewURL ''/_next/image'' s]"
    and "h3 = h2 @ [Fetch (optimizerUrl s url)]"
  shows "case fetchedBlob (env_fetch e h2 (optimizerUrl s url)) of
           Some b \<Rightarrow>
             fileFromUrl e url fn (Some os) h = fileFromBlob e b fn next_image_optimizer h3
             \<and> (\<exists>f. fileFromUrl e url fn (Some os) h = (Inr f, h3)
                    \<and> file_fetchedVia f = Some next_image_optimizer
                    \<and> file_bytes f = blob_bytes b
                    \<and> file_name f = safeName (blob_type b) fn)
         | None \<Rightarrow> fileFromUrl e url fn (Some os) h = (Inl fetchError, h3)"
  using assms
  by (simp add: fileFromUrl_def bnd_def throw_def tryFetchBlob_run
      buildNextImageOptimizerUrl_run [OF assms(1,2)] fileFromBlob_def Let_def
      split: option.splits)

theorem fileFromUrl_optimizer_fallback_witness:
  "fileFromUrl
     (sample_env (sample_window (Inr ()) (Inr ())) old_navigator cors_blocked_fetch True)
     cdn_url None (Some \<lparr> allowNextImageOptimizerFallback = Some True \<rparr>) [] =
   (Inr \<lparr> file_name = ''shared-image.png'', file_type = ''image/png'',
          file_lastModified = 1765800000000, file_bytes = [137, 80, 78, 71],
          file_fetchedVia = Some next_image_optimizer \<rparr>,
    [Fetch cdn_url, NewURL ''/_next/image'' ''https://app.example'',
     Fetch ''https://app.example/_next/image?url=https%3A%2F%2Fcdn.example%2Fa.png&w=1080&q=90''])
   \<and> fileFromUrl
     (sample_env (sample_window (Inr ()) (Inr ())) old_navigator offline_fetch True)
     cdn_url None (Some \<lparr> allowNextImageOptimizerFallback = Some True \<rparr>) [] =
   (Inl fetchError,
    [Fetch cdn_url, NewURL ''/_next/image'' ''https://app.example'',
     Fetch ''https://app.example/_next/image?url=https%3A%2F%2Fcdn.example%2Fa.png&w=1080&q=90''])"
proof -
  let ?w = "sample_window (Inr ()) (Inr ())"
  let ?h2 = "[] @ [Fetch cdn_url, NewURL ''/_next/image'' ''https://app.example'']"
  let ?h3 = "?h2 @ [Fetch (optimizerUrl ''https://app.example'' cdn_url)]"
  have w: "env_window (sample_env ?w old_navigator fetching True) = Some ?w" for fetching
    by (simp add: sample_env_def)
  have og: "location_origin ?w = TupleOrigin ''https://app.example''"
    by (simp add: sample_window_def)
  have allowed: "allowNextImageOptimizerFallback
      \<lparr> allowNextImageOptimizerFallback = Some True \<rparr> = Some True"
    by simp
  have differs: "optimizerUrl ''https://app.example'' cdn_url \<noteq> cdn_url"
    by code_simp
  have blocked_direct: "fetchedBlob
      (env_fetch (sample_env ?w old_navigator cors_blocked_fetch True) [] cdn_url) = None"
    by (simp add: fetchedBlob_def sample_env_def cors_blocked_fetch_def)
  have offline_direct: "fetchedBlob
      (env_fetch (sample_env ?w old_navigator offline_fetch True) [] cdn_url) = None"
    by (simp add: fetchedBlob_def sample_env_def offline_fetch_def)
  have via_next: "fetchedBlob
      (env_fetch (sample_env ?w old_navigator cors_blocked_fetch True) ?h2
         (optimizerUrl ''https://app.example'' cdn_url)) = Some sample_blob"
    using differs
    by (simp add: fetchedBlob_def sample_env_def cors_blocked_fetch_def sample_response_def)
  have offline_next: "fetchedBlob
      (env_fetch (sample_env ?w old_navigator offline_fetch True) ?h2
         (optimizerUrl ''https://app.example'' cdn_url)) = None"
    by (simp add: fetchedBlob_def sample_env_def offline_fetch_def)
  have made: "fileFromBlob (sample_env ?w old_navigator cors_blocked_fetch True) sample_blob
      None next_image_optimizer hb =
    (Inr \<lparr> file_name = ''shared-image.png'', file_type = ''image/png'',
          file_lastModified = 1765800000000, file_bytes = [137, 80, 78, 71],
          file_fetchedVia = Some next_image_optimizer \<rparr>, hb)" for hb
    by (simp add: fileFromBlob_def sample_png_name sample_png_type sample_blob_def
        sample_env_def Let_def)
  note fallback = fileFromUrl_optimizer_fallback
      [OF w og allowed blocked_direct refl refl, of None, unfolded via_next option.case]
  note failure = fileFromUrl_optimizer_fallback
      [OF w og allowed offline_direct refl refl, of None, unfolded offline_next option.case]
  from fallback [THEN conjunct1] failure
  show ?thesis
    by (simp add: made sample_optimizerUrl)
qed

section \<open>The file name\<close>

text \<open>
  C7. The name of the file depends on the content type of the blob and on the
  optional file name only (not on the bytes, the path of the fetch, the time or the
  browser): it is the trimmed file name when that is not empty, and otherwise
  \<^verbatim>\<open>shared-image\<close> followed by the extension that the table gives to the media type of the
  content type (the text before the first semicolon, trimmed, in lower case). The content
  type \<^verbatim>\<open>image/png\<close> with no file name gives \<^verbatim>\<open>shared-image.png\<close>.
\<close>

theorem safe_filename_derivation:
  "(\<exists>f. fileFromBlob e b fn via h = (Inr f, h) \<and> file_name f = safeName (blob_type b) fn)
   \<and> safeName contentType fn = exactSafeName (mediaType contentType) fn
   \<and> safeName ''image/png'' None = ''shared-image.png''"
proof (intro conjI)
  show "\<exists>f. fileFromBlob e b fn via h = (Inr f, h) \<and> file_name f = safeName (blob_type b) fn"
    by (simp add: fileFromBlob_def Let_def)
  have "extensionFromContentType contentType = exactExtension (mediaType contentType)"
    by (simp add: extensionFromContentType_def exactExtension_def mediaType_def Let_def)
  then show "safeName contentType fn = exactSafeName (mediaType contentType) fn"
    by (simp add: safeName_def exactSafeName_def Let_def)
  show "safeName ''image/png'' None = ''shared-image.png''"
    by (rule sample_png_name)
qed

text \<open>
  C7, the table taken as an exact match on the content type: it does not give the name,
  since a content type with a parameter keeps its extension.
\<close>

theorem safe_filename_exact_match_counterexample:
  "safeName ''image/png;charset=utf-8'' None = ''shared-image.png''
   \<and> exactSafeName ''image/png;charset=utf-8'' None = ''shared-image''
   \<and> safeName ''image/png;charset=utf-8'' None \<noteq> exactSafeName ''image/png;charset=utf-8'' None"
  by code_simp

section \<open>No exception escapes\<close>

text \<open>
  C6. Whatever the browser interfaces do (return or throw, at any moment), the Web Share
  flow and the direct flow return a \<^verbatim>\<open>ShareResult\<close> and throw nothing; so does
  \<^verbatim>\<open>tryWriteImageToClipboard\<close> wherever \<^verbatim>\<open>navigator\<close> is defined, and its result is \<^verbatim>\<open>false\<close>
  when the \<^verbatim>\<open>ClipboardItem\<close> constructor or \<^verbatim>\<open>clipboard.write\<close> throws.
\<close>

theorem strategies_never_throw:
  "(\<exists>r h'. shareImageViaWebShare e payload h = (Inr r, h'))
   \<and> (\<exists>r h'. shareImageToInstagramDirect e options h = (Inr r, h'))
   \<and> (env_navigator e \<noteq> None \<longrightarrow> (\<exists>b h'. tryWriteImageToClipboard e f h = (Inr b, h')))
   \<and> (\<forall>nav clip wr ctor err.
        env_navigator e = Some nav \<and> nav_clipboard nav = Some clip
        \<and> clip_write clip = Some wr \<and> env_ClipboardItem e = Some ctor
        \<and> (ctor h (clipboardMime f) (slice_all f (clipboardMime f)) = Inl err
           \<or> wr (h @ [NewClipboardItem (clipboardMime f)]) (clipboardMime f)
                (slice_all f (clipboardMime f)) = Inl err)
        \<longrightarrow> fst (tryWriteImageToClipboard e f h) = Inr False)"
proof (intro conjI allI impI)
  show "\<exists>r h'. shareImageViaWebShare e payload h = (Inr r, h')"
    by (rule returnsD [OF returns_shareImageViaWebShare])
  show "\<exists>r h'. shareImageToInstagramDirect e options h = (Inr r, h')"
    by (rule returnsD [OF returns_shareImageToInstagramDirect])
  show "\<exists>b h'. tryWriteImageToClipboard e f h = (Inr b, h')" if "env_navigator e \<noteq> None"
    by (rule returnsD [OF returns_tryWriteImageToClipboard [OF that]])
next
  fix nav clip wr ctor err
  assume a: "env_navigator e = Some nav \<and> nav_clipboard nav = Some clip
        \<and> clip_write clip = Some wr \<and> env_ClipboardItem e = Some ctor
        \<and> (ctor h (clipboardMime f) (slice_all f (clipboardMime f)) = Inl err
           \<or> wr (h @ [NewClipboardItem (clipboardMime f)]) (clipboardMime f)
                (slice_all f (clipboardMime f)) = Inl err)"
  then have run: "tryWriteImageToClipboard e f h =
    (if ctor h (clipboardMime f) (slice_all f (clipboardMime f)) = Inr ()
     then (Inr (wr (h @ [NewClipboardItem (clipboardMime f)]) (clipboardMime f)
                  (slice_all f (clipboardMime f)) = Inr ()),
           h @ [NewClipboardItem (clipboardMime f), ClipboardWrite (clipboardMime f)])
     else (Inr False, h @ [NewClipboardItem (clipboardMime f)]))"
    by (intro tryWriteImageToClipboard_run [where nav = nav and clip = clip]) simp_all
  from a show "fst (tryWriteImageToClipboard e f h) = Inr False"
    by (auto simp add: run)
qed

theorem strategies_never_throw_witness:
  "(\<exists>b h'. tryWriteImageToClipboard
       (sample_env (sample_window (Inr ()) (Inr ()))
          (sample_navigator (Inr ()) (Some (sample_clipboard blocked))) open_fetch True)
       \<lparr> file_name = ''shared-image.png'', file_type = ''image/png'',
         file_lastModified = 0, file_bytes = [], file_fetchedVia = None \<rparr> [] = (Inr b, h'))
   \<and> fst (tryWriteImageToClipboard
       (sample_env (sample_window (Inr ()) (Inr ()))
          (sample_navigator (Inr ()) (Some (sample_clipboard blocked))) open_fetch True)
       \<lparr> file_name = ''shared-image.png'', file_type = ''image/png'',
         file_lastModified = 0, file_bytes = [], file_fetchedVia = None \<rparr> []) = Inr False"
proof -
  let ?nav = "sample_navigator (Inr ()) (Some (sample_clipboard blocked))"
  let ?e = "sample_env (sample_window (Inr ()) (Inr ())) ?nav open_fetch True"
  let ?f = "\<lparr> file_name = ''shared-image.png'', file_type = ''image/png'',
       file_lastModified = 0, file_bytes = [], file_fetchedVia = None \<rparr>"
  have present: "env_navigator ?e \<noteq> None"
    by (simp add: sample_env_def)
  have thrown: "env_navigator ?e = Some ?nav
      \<and> nav_clipboard ?nav = Some (sample_clipboard blocked)
      \<and> clip_write (sample_clipboard blocked) = Some (\<lambda>h m b. blocked)
      \<and> env_ClipboardItem ?e = Some (\<lambda>h m b. Inr ())
      \<and> ((\<lambda>h m b. Inr ()) [] (clipboardMime ?f) (slice_all ?f (clipboardMime ?f))
            = Inl (jsError ''SecurityError'' ''The operation is insecure.'')
         \<or> (\<lambda>h m b. blocked) ([] @ [NewClipboardItem (clipboardMime ?f)]) (clipboardMime ?f)
              (slice_all ?f (clipboardMime ?f))
            = Inl (jsError ''SecurityError'' ''The operation is insecure.''))"
    by (simp add: sample_env_def sample_navigator_def sample_clipboard_def blocked_def)
  note all = strategies_never_throw [of ?e sample_payload "[]" "sample_options None" ?f]
  from all present have "\<exists>b h'. tryWriteImageToClipboard ?e ?f [] = (Inr b, h')"
    by blast
  moreover from all thrown have "fst (tryWriteImageToClipboard ?e ?f []) = Inr False"
    by blast
  ultimately show ?thesis by (rule conjI)
qed

end
